theory Spec2Isabelle
  imports Complex_Main "HOL-Library.Char_ord" "HOL-Library.List_Lexorder"
begin

section \<open>Values, errors and tables\<close>

text \<open>
  The script \<^verbatim>\<open>Streamlit_App.py\<close> fetches JSON, turns it into a pandas table, filters it
  and hands the pieces to the page. The objects that \<^verbatim>\<open>r.json()\<close> returns are Python values:
  \<^verbatim>\<open>None\<close>, booleans, numbers, strings, lists and dictionaries with string keys. The float
  \<^verbatim>\<open>nan\<close>, which pandas also writes into a cell whose key is absent from an item, has a
  constructor of its own. The script never computes with a number, so numbers are carried as
  reals. A dictionary is an association list in insertion order, read through \<open>map_of\<close>.
  Strings are byte strings (UTF-8).
\<close>

datatype pyval =
    PNone
  | PBool bool
  | PNum real
  | PNaN
  | PStr string
  | PList "pyval list"
  | PDict "(string \<times> pyval) list"

text \<open>Every exception the modelled lines can raise, as a value.\<close>

datatype error =
    RequestException
  | JSONDecodeError
  | KeyError string
  | TypeError
  | IndexError
  | AttributeError
  | ParserError
  | OverflowError
  | ValueError
  | TypeOrAttributeError

text \<open>
  A \<^verbatim>\<open>pd.DataFrame\<close>: the column labels in order, and the rows in order, each row holding
  one cell per column. The row index of pandas is left out: the script reads rows by position
  (\<^verbatim>\<open>.iloc[0]\<close>) and by boolean mask only.
\<close>

record dataframe =
  columns :: "string list"
  rows :: "pyval list list"

definition wf_df :: "dataframe \<Rightarrow> bool" where
  "wf_df df \<longleftrightarrow> distinct (columns df) \<and> list_all (\<lambda>r. length r = length (columns df)) (rows df)"

text \<open>\<^verbatim>\<open>pd.isna\<close>: \<^verbatim>\<open>None\<close> and \<^verbatim>\<open>nan\<close> are the missing values.\<close>

fun isna :: "pyval \<Rightarrow> bool" where
  "isna PNone = True"
| "isna PNaN = True"
| "isna _ = False"

fun is_str :: "pyval \<Rightarrow> bool" where
  "is_str (PStr _) = True"
| "is_str _ = False"

fun the_str :: "pyval \<Rightarrow> string" where
  "the_str (PStr s) = s"
| "the_str _ = []"

fun is_dict :: "pyval \<Rightarrow> bool" where
  "is_dict (PDict _) = True"
| "is_dict _ = False"

text \<open>The values of a list in order of first appearance (\<^verbatim>\<open>Series.unique\<close>, dictionary keys).\<close>

fun unique :: "'a list \<Rightarrow> 'a list" where
  "unique [] = []"
| "unique (x # xs) = x # unique (filter (\<lambda>y. y \<noteq> x) xs)"

fun keys :: "pyval \<Rightarrow> string list" where
  "keys (PDict kvs) = unique (map fst kvs)"
| "keys _ = []"

fun getv :: "pyval \<Rightarrow> string \<Rightarrow> pyval option" where
  "getv (PDict kvs) k = map_of kvs k"
| "getv _ k = None"

fun index_of :: "'a \<Rightarrow> 'a list \<Rightarrow> nat" where
  "index_of c [] = 0"
| "index_of c (x # xs) = (if x = c then 0 else Suc (index_of c xs))"

definition cell :: "dataframe \<Rightarrow> string \<Rightarrow> pyval list \<Rightarrow> pyval" where
  "cell df c r = r ! index_of c (columns df)"

text \<open>
  \<^verbatim>\<open>pd.DataFrame(data)\<close> for a list of dictionaries: the columns are the keys in order of
  first appearance over the items, and there is a row per item in the order of the list.
  A column is first filled from the items, with \<^verbatim>\<open>nan\<close> where an item lacks the key, and
  then converted as pandas converts a column of objects: when it holds numbers and missing
  values only, and a number or a \<^verbatim>\<open>nan\<close> is among them, it becomes a column of floats and
  each \<^verbatim>\<open>None\<close> in it becomes \<^verbatim>\<open>nan\<close>; any other column keeps its values, so a
  \<^verbatim>\<open>None\<close> beside strings stays \<^verbatim>\<open>None\<close>. What the constructor does with any other
  argument (a scalar, a dictionary, a list with an element that is no dictionary) is the
  parameter \<open>other\<close>.
\<close>

fun is_num :: "pyval \<Rightarrow> bool" where
  "is_num (PNum _) = True"
| "is_num _ = False"

definition column_of :: "pyval list \<Rightarrow> string \<Rightarrow> pyval list" where
  "column_of items c = map (\<lambda>d. case getv d c of Some v \<Rightarrow> v | None \<Rightarrow> PNaN) items"

definition float_column :: "pyval list \<Rightarrow> bool" where
  "float_column col \<longleftrightarrow>
     list_all (\<lambda>v. is_num v \<or> isna v) col \<and> list_ex (\<lambda>v. is_num v \<or> v = PNaN) col"

definition maybe_convert_objects :: "pyval list \<Rightarrow> pyval list" where
  "maybe_convert_objects col =
     (if float_column col then map (\<lambda>v. if v = PNone then PNaN else v) col else col)"

definition frame_of_dicts :: "pyval list \<Rightarrow> dataframe" where
  "frame_of_dicts items =
     (let cols = unique (concat (map keys items))
      in \<lparr>columns = cols,
          rows = map (\<lambda>i. map (\<lambda>c. maybe_convert_objects (column_of items c) ! i) cols)
                   [0..<length items]\<rparr>)"

definition DataFrame :: "(pyval \<Rightarrow> error + dataframe) \<Rightarrow> pyval \<Rightarrow> error + dataframe" where
  "DataFrame other data =
     (case data of
        PList items \<Rightarrow> if list_all is_dict items then Inr (frame_of_dicts items) else other data
      | _ \<Rightarrow> other data)"

text \<open>\<^verbatim>\<open>df[c]\<close>: the column, or \<^verbatim>\<open>KeyError\<close>.\<close>

definition getitem :: "dataframe \<Rightarrow> string \<Rightarrow> error + pyval list" where
  "getitem df c =
     (if c \<in> set (columns df) then Inr (map (cell df c) (rows df)) else Inl (KeyError c))"

text \<open>\<^verbatim>\<open>df[mask]\<close>: the rows whose mask entry is true.\<close>

definition mask_rows :: "dataframe \<Rightarrow> bool list \<Rightarrow> dataframe" where
  "mask_rows df bs = df\<lparr>rows := map fst (filter snd (zip (rows df) bs))\<rparr>"

section \<open>The cached fetch\<close>

text \<open>
  What \<^verbatim>\<open>requests.get(url)\<close> followed by \<^verbatim>\<open>r.json()\<close> can give: the request raises, or a
  response arrives with a status code and a body that parses to a value or does not.
\<close>

datatype response =
    Failed
  | Response nat "pyval option"

text \<open>The body of \<^verbatim>\<open>make_df\<close>, lines 42 to 45. The status code is not read.\<close>

definition make_df_body :: "(pyval \<Rightarrow> error + dataframe) \<Rightarrow> response \<Rightarrow> error + dataframe" where
  "make_df_body other r =
     (case r of
        Failed \<Rightarrow> Inl RequestException
      | Response status body \<Rightarrow>
          (case body of
             None \<Rightarrow> Inl JSONDecodeError
           | Some json \<Rightarrow>
               (case json of
                  PDict kvs \<Rightarrow>
                    (case map_of kvs ''items'' of
                       None \<Rightarrow> Inl (KeyError ''items'')
                     | Some items \<Rightarrow> DataFrame other items)
                | _ \<Rightarrow> Inl TypeError)))"

text \<open>
  The session: the store of \<^verbatim>\<open>@st.cache_data\<close>, keyed by the argument, and the requests
  sent so far. The decorator looks the argument up; on a miss it runs the function and stores
  the value it returns. A call that raises stores nothing. The network answers a request
  from its URL and the number of requests sent before it, so the same URL may be answered
  differently later.
\<close>

record session =
  cache :: "string \<rightharpoonup> dataframe"
  requests :: "string list"

definition make_df ::
  "(pyval \<Rightarrow> error + dataframe) \<Rightarrow> (nat \<Rightarrow> string \<Rightarrow> response) \<Rightarrow> string \<Rightarrow> session
     \<Rightarrow> (error + dataframe) \<times> session" where
  "make_df other net url s =
     (case cache s url of
        Some df \<Rightarrow> (Inr df, s)
      | None \<Rightarrow>
          (let r = net (length (requests s)) url;
               s' = s\<lparr>requests := requests s @ [url]\<rparr>
           in case make_df_body other r of
                Inl e \<Rightarrow> (Inl e, s')
              | Inr df \<Rightarrow> (Inr df, s'\<lparr>cache := (cache s')(url \<mapsto> df)\<rparr>)))"

section \<open>The window start\<close>

text \<open>
  A naive \<^verbatim>\<open>datetime\<close> as Python holds it: the fields of the proleptic Gregorian calendar.
\<close>

record datetime =
  year :: nat
  month :: nat
  day :: nat
  hour :: nat
  minute :: nat
  second :: nat
  microsecond :: nat

definition is_leap :: "nat \<Rightarrow> bool" where
  "is_leap y \<longleftrightarrow> y mod 4 = 0 \<and> (y mod 100 \<noteq> 0 \<or> y mod 400 = 0)"

definition days_in_month :: "nat \<Rightarrow> nat \<Rightarrow> nat" where
  "days_in_month y m =
     (if m = 2 then (if is_leap y then 29 else 28)
      else if m = 4 \<or> m = 6 \<or> m = 9 \<or> m = 11 then 30 else 31)"

definition valid_datetime :: "datetime \<Rightarrow> bool" where
  "valid_datetime dt \<longleftrightarrow>
     1 \<le> year dt \<and> year dt \<le> 9999 \<and> 1 \<le> month dt \<and> month dt \<le> 12 \<and>
     1 \<le> day dt \<and> day dt \<le> days_in_month (year dt) (month dt) \<and>
     hour dt < 24 \<and> minute dt < 60 \<and> second dt < 60 \<and> microsecond dt < 1000000"

text \<open>
  The day number Python computes with (\<^verbatim>\<open>toordinal\<close>: 1 is 0001-01-01), and the instant of
  a \<^verbatim>\<open>datetime\<close> in microseconds since the start of day 0.
\<close>

definition days_before_year :: "nat \<Rightarrow> nat" where
  "days_before_year y = (y - 1) * 365 + (y - 1) div 4 - (y - 1) div 100 + (y - 1) div 400"

definition days_before_month :: "nat \<Rightarrow> nat \<Rightarrow> nat" where
  "days_before_month y m = sum_list (map (days_in_month y) [1..<m])"

definition toordinal :: "datetime \<Rightarrow> nat" where
  "toordinal dt = days_before_year (year dt) + days_before_month (year dt) (month dt) + day dt"

definition instant :: "datetime \<Rightarrow> nat" where
  "instant dt =
     ((toordinal dt * 24 + hour dt) * 60 + minute dt) * 60000000
       + second dt * 1000000 + microsecond dt"

text \<open>
  \<^verbatim>\<open>now - timedelta(hours=24)\<close>, line 14: the same time of day on the day before, and
  \<^verbatim>\<open>OverflowError\<close> when there is no day before.
\<close>

definition last_24h_datetime :: "datetime \<Rightarrow> error + datetime" where
  "last_24h_datetime now =
     (if 1 < day now then Inr (now\<lparr>day := day now - 1\<rparr>)
      else if 1 < month now then
        Inr (now\<lparr>month := month now - 1, day := days_in_month (year now) (month now - 1)\<rparr>)
      else if 1 < year now then Inr (now\<lparr>year := year now - 1, month := 12, day := 31\<rparr>)
      else Inl OverflowError)"

text \<open>Decimal digits, and \<^verbatim>\<open>%0wd\<close>.\<close>

fun dec :: "nat \<Rightarrow> string" where
  "dec n = (if n < 10 then [''0123456789'' ! n] else dec (n div 10) @ [''0123456789'' ! (n mod 10)])"

declare dec.simps [simp del]

definition zfill :: "nat \<Rightarrow> nat \<Rightarrow> string" where
  "zfill w n = replicate (w - length (dec n)) (CHR ''0'') @ dec n"

text \<open>
  \<^verbatim>\<open>str(dt)\<close> is \<^verbatim>\<open>dt.isoformat(sep=' ')\<close>: the fraction of a second is printed, with six
  digits, only when the microsecond field is not zero.
\<close>

definition str_datetime :: "datetime \<Rightarrow> string" where
  "str_datetime dt =
     zfill 4 (year dt) @ ''-'' @ zfill 2 (month dt) @ ''-'' @ zfill 2 (day dt) @ '' '' @
     zfill 2 (hour dt) @ '':'' @ zfill 2 (minute dt) @ '':'' @ zfill 2 (second dt) @
     (if microsecond dt \<noteq> 0 then ''.'' @ zfill 6 (microsecond dt) else [])"

text \<open>\<^verbatim>\<open>s.replace(a, t)\<close> for a pattern \<open>a\<close> of one character, and \<^verbatim>\<open>s[:-4]\<close>.\<close>

definition replace :: "char \<Rightarrow> string \<Rightarrow> string \<Rightarrow> string" where
  "replace a t s = concat (map (\<lambda>c. if c = a then t else [c]) s)"

definition drop_last4 :: "string \<Rightarrow> string" where
  "drop_last4 s = take (length s - 4) s"

text \<open>Line 15.\<close>

definition url_formatted_dt :: "datetime \<Rightarrow> error + string" where
  "url_formatted_dt now =
     (case last_24h_datetime now of
        Inl e \<Rightarrow> Inl e
      | Inr d \<Rightarrow> Inr (drop_last4 (replace (CHR '' '') ''T'' (str_datetime d)) @ ''Z''))"

section \<open>The view pipeline\<close>

definition root :: string where
  "root = ''http://environment.data.gov.uk/flood-monitoring/''"

definition stations_api :: string where
  "stations_api = root @ ''id/stations''"

text \<open>Line 50: the rows whose label is not the excluded one.\<close>

definition stations_df :: "dataframe \<Rightarrow> error + dataframe" where
  "stations_df df =
     (case getitem df ''label'' of
        Inl e \<Rightarrow> Inl e
      | Inr lab \<Rightarrow> Inr (mask_rows df (map (\<lambda>v. v \<noteq> PStr '' Huscote FAS'') lab)))"

text \<open>
  \<^verbatim>\<open>df[[c1, c2]]\<close> (\<^verbatim>\<open>KeyError\<close> when a column is absent), \<^verbatim>\<open>rename(columns=...)\<close> and
  \<^verbatim>\<open>dropna()\<close>, which drops a row with a missing value in any column.
\<close>

definition select_columns :: "dataframe \<Rightarrow> string list \<Rightarrow> error + dataframe" where
  "select_columns df cs =
     (case filter (\<lambda>c. c \<notin> set (columns df)) cs of
        [] \<Rightarrow> Inr \<lparr>columns = cs, rows = map (\<lambda>r. map (\<lambda>c. cell df c r) cs) (rows df)\<rparr>
      | c # _ \<Rightarrow> Inl (KeyError c))"

definition rename :: "(string \<times> string) list \<Rightarrow> dataframe \<Rightarrow> dataframe" where
  "rename m df = df\<lparr>columns := map (\<lambda>c. case map_of m c of Some c' \<Rightarrow> c' | None \<Rightarrow> c) (columns df)\<rparr>"

definition dropna :: "dataframe \<Rightarrow> dataframe" where
  "dropna df = df\<lparr>rows := filter (\<lambda>r. \<not> list_ex isna r) (rows df)\<rparr>"

text \<open>Lines 55 to 57.\<close>

definition map_data :: "dataframe \<Rightarrow> error + dataframe" where
  "map_data df =
     (case select_columns df [''lat'', ''long''] of
        Inl e \<Rightarrow> Inl e
      | Inr d \<Rightarrow> Inr (dropna (rename [(''long'', ''lon'')] d)))"

text \<open>
  \<^verbatim>\<open>format_func\<close>, line 68: \<^verbatim>\<open>a.lower().title()\<close>. Python's \<^verbatim>\<open>str.lower\<close> and
  \<^verbatim>\<open>str.title\<close> follow the case tables of Unicode; they are the parameters \<open>lower\<close> and
  \<open>title\<close> of the model.
\<close>

definition format_func :: "(string \<Rightarrow> string) \<Rightarrow> (string \<Rightarrow> string) \<Rightarrow> string \<Rightarrow> string" where
  "format_func lower title a = title (lower a)"

text \<open>
  On strings of ASCII characters the two methods are the functions below, which the
  examples use: \<^verbatim>\<open>title\<close> capitalises a letter that follows a character without case and
  lowers one that follows a letter.
\<close>

definition upper_letters :: string where
  "upper_letters = ''ABCDEFGHIJKLMNOPQRSTUVWXYZ''"

definition lower_letters :: string where
  "lower_letters = ''abcdefghijklmnopqrstuvwxyz''"

definition is_upper :: "char \<Rightarrow> bool" where
  "is_upper c \<longleftrightarrow> c \<in> set upper_letters"

definition is_lower :: "char \<Rightarrow> bool" where
  "is_lower c \<longleftrightarrow> c \<in> set lower_letters"

definition to_lower :: "char \<Rightarrow> char" where
  "to_lower c = (case map_of (zip upper_letters lower_letters) c of Some d \<Rightarrow> d | None \<Rightarrow> c)"

definition to_upper :: "char \<Rightarrow> char" where
  "to_upper c = (case map_of (zip lower_letters upper_letters) c of Some d \<Rightarrow> d | None \<Rightarrow> c)"

definition ascii_lower :: "string \<Rightarrow> string" where
  "ascii_lower s = map to_lower s"

fun title_from :: "bool \<Rightarrow> string \<Rightarrow> string" where
  "title_from previous_is_cased [] = []"
| "title_from previous_is_cased (c # cs) =
     (if is_lower c then (if previous_is_cased then c else to_upper c) # title_from True cs
      else if is_upper c then (if previous_is_cased then to_lower c else c) # title_from True cs
      else c # title_from False cs)"

definition ascii_title :: "string \<Rightarrow> string" where
  "ascii_title s = title_from False s"

text \<open>
  The order that the words \<open>ascending alphabetical order\<close> of the spec name, read as the
  order of a dictionary: strings compare letter by letter without regard to case. It is
  stated for strings of ASCII characters.
\<close>

definition alphabetical :: "string list \<Rightarrow> bool" where
  "alphabetical xs \<longleftrightarrow> sorted (map ascii_lower xs)"

text \<open>
  Lines 65 to 69. The options are \<^verbatim>\<open>stations_df["label"].sort_values().unique()\<close>; Python
  orders strings by code point, which is the order of their UTF-8 bytes. \<^verbatim>\<open>st.selectbox\<close>
  formats every option for display and returns the option the user chose, unformatted:
  the first one until the user chooses, \<^verbatim>\<open>None\<close> when there is no option. A label that
  is not a string makes the sort, \<^verbatim>\<open>unique\<close> or \<^verbatim>\<open>a.lower()\<close> raise \<^verbatim>\<open>TypeError\<close> or
  \<^verbatim>\<open>AttributeError\<close>; the model does not tell which of the two.
\<close>

definition label_options :: "dataframe \<Rightarrow> error + string list" where
  "label_options df =
     (case getitem df ''label'' of
        Inl e \<Rightarrow> Inl e
      | Inr lab \<Rightarrow>
          if list_all is_str lab then Inr (unique (sort (map the_str lab)))
          else Inl TypeOrAttributeError)"

record selectbox =
  options :: "string list"
  displayed :: "string list"
  selected :: "string option"

definition st_selectbox :: "string list \<Rightarrow> (string \<Rightarrow> string) \<Rightarrow> nat \<Rightarrow> selectbox" where
  "st_selectbox opts fmt choice =
     \<lparr>options = opts,
      displayed = map fmt opts,
      selected = (if opts = [] then None
                  else Some (opts ! (if choice < length opts then choice else 0)))\<rparr>"

definition station_select ::
  "(string \<Rightarrow> string) \<Rightarrow> (string \<Rightarrow> string) \<Rightarrow> dataframe \<Rightarrow> nat \<Rightarrow> error + selectbox" where
  "station_select lower title df choice =
     (case label_options df of
        Inl e \<Rightarrow> Inl e
      | Inr opts \<Rightarrow> Inr (st_selectbox opts (format_func lower title) choice))"

text \<open>
  Lines 72 to 76: the rows whose label equals the selection, their \<^verbatim>\<open>notation\<close>, the first
  of them (\<^verbatim>\<open>IndexError\<close> when there is none), and its underscores removed
  (\<^verbatim>\<open>AttributeError\<close> when it is not a string).
\<close>

definition station_id :: "dataframe \<Rightarrow> string option \<Rightarrow> error + string" where
  "station_id df sel =
     (case getitem df ''label'' of
        Inl e \<Rightarrow> Inl e
      | Inr lab \<Rightarrow>
          (case getitem (mask_rows df (map (\<lambda>v. case sel of None \<Rightarrow> False | Some s \<Rightarrow> v = PStr s) lab))
                  ''notation'' of
             Inl e \<Rightarrow> Inl e
           | Inr notations \<Rightarrow>
               (case notations of
                  [] \<Rightarrow> Inl IndexError
                | v # _ \<Rightarrow>
                    (case v of
                       PStr n \<Rightarrow> Inr (replace (CHR ''_'') [] n)
                     | _ \<Rightarrow> Inl AttributeError))))"

text \<open>Lines 78 to 80.\<close>

definition filtered_by_station :: "string \<Rightarrow> string \<Rightarrow> string" where
  "filtered_by_station sid since = root @ ''id/stations/'' @ sid @ ''/readings'' @ ''?since='' @ since"

text \<open>
  \<^verbatim>\<open>df[c] = values\<close>: the column is replaced, or appended when it is new; pandas raises
  \<^verbatim>\<open>ValueError\<close> when the number of values is not the number of rows.
\<close>

definition setitem :: "dataframe \<Rightarrow> string \<Rightarrow> pyval list \<Rightarrow> error + dataframe" where
  "setitem df c vals =
     (if length vals \<noteq> length (rows df) then Inl ValueError
      else if c \<in> set (columns df) then
        Inr (df\<lparr>rows := map (\<lambda>(r, v). r[index_of c (columns df) := v]) (zip (rows df) vals)\<rparr>)
      else
        Inr \<lparr>columns = columns df @ [c], rows = map (\<lambda>(r, v). r @ [v]) (zip (rows df) vals)\<rparr>)"

text \<open>
  Lines 85 to 87. \<^verbatim>\<open>pd.to_datetime\<close> is a parameter: it parses a column or raises.
\<close>

definition filtered_df :: "(pyval list \<Rightarrow> error + pyval list) \<Rightarrow> dataframe \<Rightarrow> error + dataframe" where
  "filtered_df to_datetime df =
     (case getitem df ''dateTime'' of
        Inl e \<Rightarrow> Inl e
      | Inr col \<Rightarrow>
          (case to_datetime col of
             Inl e \<Rightarrow> Inl e
           | Inr parsed \<Rightarrow> setitem df ''dateTime'' parsed))"

text \<open>Lines 90 to 94: the transposed table has one labelled row per column.\<close>

definition transpose_df :: "dataframe \<Rightarrow> (string \<times> pyval list) list" where
  "transpose_df df = map (\<lambda>c. (c, map (cell df c) (rows df))) (columns df)"

definition table :: "dataframe \<Rightarrow> error + (string \<times> pyval list) list" where
  "table df =
     (case select_columns df [''dateTime'', ''value''] of
        Inl e \<Rightarrow> Inl e
      | Inr d \<Rightarrow>
          Inr (transpose_df
                 (rename [(''dateTime'', ''Date and Time''), (''value'', ''Water Level'')] d)))"

section \<open>The script\<close>

text \<open>
  The variables of the script. A field holds the value of its variable once the line that
  assigns it has run; before that it holds an empty value that no line reads.
\<close>

record vars =
  v_url_formatted_dt :: string
  v_stations_df :: dataframe
  v_map_data :: dataframe
  v_station_select :: "string option"
  v_options :: "string list"
  v_displayed :: "string list"
  v_station_id :: string
  v_filtered_by_station :: string
  v_filtered_df :: dataframe
  v_table :: "(string \<times> pyval list) list"

definition empty_df :: dataframe where
  "empty_df = \<lparr>columns = [], rows = []\<rparr>"

definition init_vars :: vars where
  "init_vars =
     \<lparr>v_url_formatted_dt = [], v_stations_df = empty_df, v_map_data = empty_df,
      v_station_select = None, v_options = [], v_displayed = [], v_station_id = [],
      v_filtered_by_station = [], v_filtered_df = empty_df, v_table = []\<rparr>"

text \<open>Each step runs the lines named and assigns their variable, or raises.\<close>

definition step_since :: "datetime \<Rightarrow> vars \<Rightarrow> error + vars" where
  "step_since now g =
     (case url_formatted_dt now of
        Inl e \<Rightarrow> Inl e
      | Inr since \<Rightarrow> Inr (g\<lparr>v_url_formatted_dt := since\<rparr>))"

definition step_stations ::
  "(pyval \<Rightarrow> error + dataframe) \<Rightarrow> (nat \<Rightarrow> string \<Rightarrow> response) \<Rightarrow> vars \<Rightarrow> session
     \<Rightarrow> (error + vars) \<times> session" where
  "step_stations other net g s =
     (case make_df other net stations_api s of
        (Inl e, s') \<Rightarrow> (Inl e, s')
      | (Inr df, s') \<Rightarrow>
          (case stations_df df of
             Inl e \<Rightarrow> (Inl e, s')
           | Inr df' \<Rightarrow> (Inr (g\<lparr>v_stations_df := df'\<rparr>), s')))"

definition step_map_data :: "vars \<Rightarrow> error + vars" where
  "step_map_data g =
     (case map_data (v_stations_df g) of
        Inl e \<Rightarrow> Inl e
      | Inr m \<Rightarrow> Inr (g\<lparr>v_map_data := m\<rparr>))"

definition step_station_select ::
  "(string \<Rightarrow> string) \<Rightarrow> (string \<Rightarrow> string) \<Rightarrow> nat \<Rightarrow> vars \<Rightarrow> error + vars" where
  "step_station_select lower title choice g =
     (case station_select lower title (v_stations_df g) choice of
        Inl e \<Rightarrow> Inl e
      | Inr box \<Rightarrow>
          Inr (g\<lparr>v_station_select := selected box, v_options := options box,
                 v_displayed := displayed box\<rparr>))"

definition step_station_id :: "vars \<Rightarrow> error + vars" where
  "step_station_id g =
     (case station_id (v_stations_df g) (v_station_select g) of
        Inl e \<Rightarrow> Inl e
      | Inr sid \<Rightarrow>
          Inr (g\<lparr>v_station_id := sid,
                 v_filtered_by_station := filtered_by_station sid (v_url_formatted_dt g)\<rparr>))"

definition step_filtered_df ::
  "(pyval \<Rightarrow> error + dataframe) \<Rightarrow> (pyval list \<Rightarrow> error + pyval list)
     \<Rightarrow> (nat \<Rightarrow> string \<Rightarrow> response) \<Rightarrow> vars \<Rightarrow> session \<Rightarrow> (error + vars) \<times> session" where
  "step_filtered_df other to_datetime net g s =
     (case make_df other net (v_filtered_by_station g) s of
        (Inl e, s') \<Rightarrow> (Inl e, s')
      | (Inr df, s') \<Rightarrow>
          (case filtered_df to_datetime df of
             Inl e \<Rightarrow> (Inl e, s')
           | Inr df' \<Rightarrow> (Inr (g\<lparr>v_filtered_df := df'\<rparr>), s')))"

definition step_table :: "vars \<Rightarrow> error + vars" where
  "step_table g =
     (case table (v_filtered_df g) of
        Inl e \<Rightarrow> Inl e
      | Inr t \<Rightarrow> Inr (g\<lparr>v_table := t\<rparr>))"

text \<open>
  One evaluation of the page, top to bottom, up to the data of the chart and the tables:
  the first step that raises ends it.
\<close>

definition pure_step :: "(vars \<Rightarrow> error + vars) \<Rightarrow> (error + vars) \<times> session \<Rightarrow> (error + vars) \<times> session" where
  "pure_step f x = (case x of (Inl e, s) \<Rightarrow> (Inl e, s) | (Inr g, s) \<Rightarrow> (f g, s))"

definition io_step ::
  "(vars \<Rightarrow> session \<Rightarrow> (error + vars) \<times> session) \<Rightarrow> (error + vars) \<times> session
     \<Rightarrow> (error + vars) \<times> session" where
  "io_step f x = (case x of (Inl e, s) \<Rightarrow> (Inl e, s) | (Inr g, s) \<Rightarrow> f g s)"

definition script ::
  "(pyval \<Rightarrow> error + dataframe) \<Rightarrow> (pyval list \<Rightarrow> error + pyval list)
     \<Rightarrow> (string \<Rightarrow> string) \<Rightarrow> (string \<Rightarrow> string)
     \<Rightarrow> (nat \<Rightarrow> string \<Rightarrow> response) \<Rightarrow> datetime \<Rightarrow> nat \<Rightarrow> session
     \<Rightarrow> (error + vars) \<times> session" where
  "script other to_datetime lower title net now choice s =
     pure_step step_table
       (io_step (step_filtered_df other to_datetime net)
         (pure_step step_station_id
           (pure_step (step_station_select lower title choice)
             (pure_step step_map_data
               (io_step (step_stations other net)
                 (pure_step (step_since now) (Inr init_vars, s)))))))"

section \<open>Basic facts\<close>

lemma set_unique: "set (unique xs) = set xs"
  by (induction xs rule: unique.induct) auto

lemma distinct_unique: "distinct (unique xs)"
  by (induction xs rule: unique.induct) (auto simp: set_unique)

lemma sorted_unique: "sorted xs \<Longrightarrow> sorted (unique xs)"
  by (induction xs rule: unique.induct) (auto simp: set_unique sorted_wrt_filter)




lemma mask_filter: "map fst (filter snd (zip xs (map f xs))) = filter f xs"
  by (induction xs) auto

lemma replace_remove: "replace a [] s = filter (\<lambda>c. c \<noteq> a) s"
  by (induction s) (auto simp: replace_def)

lemma cell_mask_rows: "cell (mask_rows df bs) c = cell df c"
  by (simp add: cell_def mask_rows_def fun_eq_iff)

lemma columns_mask_rows: "columns (mask_rows df bs) = columns df"
  by (simp add: mask_rows_def)

lemma rows_mask_column:
  "rows (mask_rows df (map f (map (cell df c) (rows df)))) = filter (\<lambda>r. f (cell df c r)) (rows df)"
  using mask_filter [of "rows df" "\<lambda>r. f (cell df c r)"]
  by (simp add: mask_rows_def comp_def)

lemma find_filter: "List.find P xs = Some x \<Longrightarrow> \<exists>ys. filter P xs = x # ys"
  by (induction xs) (auto split: if_splits)

lemma filter_single:
  "length (filter P xs) = 1 \<Longrightarrow>
   \<exists>pre bad post. xs = pre @ bad # post \<and> P bad \<and> filter (\<lambda>x. \<not> P x) xs = pre @ post
      \<and> (\<forall>x \<in> set (pre @ post). \<not> P x)"
proof -
  assume "length (filter P xs) = 1"
  then obtain y where "filter P xs = [y]"
    by (cases "filter P xs") auto
  then obtain us vs where xs: "xs = us @ y # vs" and us: "\<forall>u\<in>set us. \<not> P u" and y: "P y"
      and vs: "[] = filter P vs"
    unfolding filter_eq_Cons_iff by blast
  from vs have vs': "\<forall>v\<in>set vs. \<not> P v"
    by (metis filter_empty_conv)
  from us vs' y have "filter (\<lambda>x. \<not> P x) xs = us @ vs"
    by (simp add: xs)
  with xs y us vs' have "xs = us @ y # vs \<and> P y \<and> filter (\<lambda>x. \<not> P x) xs = us @ vs
      \<and> (\<forall>x \<in> set (us @ vs). \<not> P x)"
    by auto
  then show ?thesis
    by blast
qed

lemma columns_frame: "columns (frame_of_dicts items) = unique (concat (map keys items))"
  by (simp add: frame_of_dicts_def Let_def)

lemma rows_frame:
  "rows (frame_of_dicts items) =
     map (\<lambda>i. map (\<lambda>c. maybe_convert_objects (column_of items c) ! i)
                (columns (frame_of_dicts items)))
       [0..<length items]"
  by (simp add: frame_of_dicts_def Let_def)

lemma length_maybe_convert_objects: "length (maybe_convert_objects col) = length col"
  by (simp add: maybe_convert_objects_def)



lemma frame_of_dicts_Nil: "frame_of_dicts [] = \<lparr>columns = [], rows = []\<rparr>"
  by (simp add: frame_of_dicts_def)

lemma stations_df_eq:
  "''label'' \<in> set (columns df) \<Longrightarrow>
   stations_df df = Inr (df\<lparr>rows := filter (\<lambda>r. cell df ''label'' r \<noteq> PStr '' Huscote FAS'') (rows df)\<rparr>)"
  using rows_mask_column [of df "\<lambda>v. v \<noteq> PStr '' Huscote FAS''" "''label''"]
  by (simp add: stations_df_def getitem_def mask_rows_def)


lemma label_options_eq:
  "''label'' \<in> set (columns df) \<Longrightarrow>
   list_all (\<lambda>r. is_str (cell df ''label'' r)) (rows df) \<Longrightarrow>
   label_options df = Inr (unique (sort (map (\<lambda>r. the_str (cell df ''label'' r)) (rows df))))"
  by (simp add: label_options_def getitem_def list_all_iff comp_def)

lemma wf_frame_of_dicts: "wf_df (frame_of_dicts items)"
  by (simp add: wf_df_def columns_frame rows_frame distinct_unique list_all_iff)

lemma wf_mask_rows: "wf_df df \<Longrightarrow> wf_df (mask_rows df bs)"
  by (auto simp: wf_df_def mask_rows_def list_all_iff dest: in_set_zipE)

subsection \<open>The calendar and the text of a timestamp\<close>

text \<open>
  The day before, as \<open>last_24h_datetime\<close> computes it from the calendar fields, is the day
  whose number is one less, so the instant moves back by exactly 24 hours.
\<close>

lemma days_before_month_Suc:
  "1 \<le> m \<Longrightarrow> days_before_month y (Suc m) = days_before_month y m + days_in_month y m"
  by (simp add: days_before_month_def)

lemma days_before_month_12: "days_before_month y 12 = (if is_leap y then 335 else 334)"
proof -
  have "[1..<12] = [1, 2, 3, 4, 5, 6, 7, 8, 9, 10, 11 :: nat]"
    by (simp add: upt_rec)
  then show ?thesis
    by (simp add: days_before_month_def days_in_month_def)
qed

lemma days_before_year_Suc:
  "1 \<le> y \<Longrightarrow> days_before_year (Suc y) = days_before_year y + (if is_leap y then 366 else 365)"
proof -
  assume "1 \<le> y"
  then obtain k where y: "y = Suc k"
    by (cases y) auto
  have le: "k div 100 \<le> k div 4"
    by (rule div_le_mono2) simp_all
  have m1: "Suc k mod 4 = 0" if "Suc k mod 100 = 0"
  proof -
    from that have "100 dvd Suc k"
      by (simp add: dvd_eq_mod_eq_0)
    moreover have "(4::nat) dvd 100"
      by simp
    ultimately have "4 dvd Suc k"
      by (rule dvd_trans [rotated])
    then show ?thesis
      by (simp add: dvd_eq_mod_eq_0)
  qed
  have m2: "Suc k mod 100 = 0" if "Suc k mod 400 = 0"
  proof -
    from that have "400 dvd Suc k"
      by (simp add: dvd_eq_mod_eq_0)
    moreover have "(100::nat) dvd 400"
      by simp
    ultimately have "100 dvd Suc k"
      by (rule dvd_trans [rotated])
    then show ?thesis
      by (simp add: dvd_eq_mod_eq_0)
  qed
  define a b c where "a = k div 4" and "b = k div 100" and "c = k div 400"
  have d4: "Suc k div 4 = (if Suc k mod 4 = 0 then Suc a else a)"
    unfolding a_def by (rule div_Suc)
  have d100: "Suc k div 100 = (if Suc k mod 100 = 0 then Suc b else b)"
    unfolding b_def by (rule div_Suc)
  have d400: "Suc k div 400 = (if Suc k mod 400 = 0 then Suc c else c)"
    unfolding c_def by (rule div_Suc)
  have le': "b \<le> a"
    using le by (simp add: a_def b_def)
  have "Suc k * 365 + Suc k div 4 - Suc k div 100 + Suc k div 400 =
        k * 365 + a - b + c + (if Suc k mod 4 = 0 \<and> (Suc k mod 100 \<noteq> 0 \<or> Suc k mod 400 = 0) then 366 else 365)"
    using le' m1 m2 unfolding d4 d100 d400 by (auto split: if_splits)
  then show ?thesis
    unfolding y days_before_year_def is_leap_def a_def b_def c_def by (simp only: diff_Suc_1)
qed

lemma toordinal_last_24h:
  "valid_datetime now \<Longrightarrow> last_24h_datetime now = Inr d \<Longrightarrow> toordinal d + 1 = toordinal now"
proof -
  assume v: "valid_datetime now" and d: "last_24h_datetime now = Inr d"
  from v have pos: "1 \<le> day now" "1 \<le> month now" "1 \<le> year now"
    by (simp_all add: valid_datetime_def)
  consider (day) "1 < day now"
    | (month) "day now = 1" "1 < month now"
    | (year) "day now = 1" "month now = 1" "1 < year now"
    | (none) "day now = 1" "month now = 1" "year now = 1"
    using pos by linarith
  then show ?thesis
  proof cases
    case day
    with d show ?thesis
      by (auto simp: last_24h_datetime_def toordinal_def)
  next
    case month
    then obtain m where m: "month now = Suc m" "1 \<le> m"
      by (cases "month now") auto
    with d month show ?thesis
      by (auto simp: last_24h_datetime_def toordinal_def days_before_month_Suc)
  next
    case year
    then obtain y where y: "year now = Suc y" "1 \<le> y"
      by (cases "year now") auto
    have "days_before_month (Suc y) 1 = 0"
      by (simp add: days_before_month_def)
    with d year y show ?thesis
      by (auto simp: last_24h_datetime_def toordinal_def days_before_year_Suc days_before_month_12)
  next
    case none
    with d show ?thesis
      by (simp add: last_24h_datetime_def)
  qed
qed

lemma instant_last_24h:
  "valid_datetime now \<Longrightarrow> last_24h_datetime now = Inr d \<Longrightarrow>
   instant d + 86400000000 = instant now"
proof -
  assume v: "valid_datetime now" and d: "last_24h_datetime now = Inr d"
  from d have "hour d = hour now" "minute d = minute now" "second d = second now"
    "microsecond d = microsecond now"
    by (auto simp: last_24h_datetime_def split: if_splits)
  with toordinal_last_24h [OF v d, symmetric] show ?thesis
    by (simp add: instant_def algebra_simps)
qed

lemma since_no_space:
  "url_formatted_dt now = Inr s \<Longrightarrow> last s = CHR ''Z'' \<and> CHR '' '' \<notin> set s"
proof -
  assume "url_formatted_dt now = Inr s"
  then obtain d where s: "s = drop_last4 (replace (CHR '' '') ''T'' (str_datetime d)) @ ''Z''"
    by (auto simp: url_formatted_dt_def split: sum.splits)
  have "CHR '' '' \<notin> set (replace (CHR '' '') ''T'' t)" for t
    by (induction t) (auto simp: replace_def)
  then have "CHR '' '' \<notin> set (drop_last4 (replace (CHR '' '') ''T'' (str_datetime d)))"
    unfolding drop_last4_def by (meson in_set_takeD)
  with s show ?thesis
    by simp
qed

text \<open>
  When the microsecond field is not zero the text has six fraction digits, and the slice
  leaves two of them.
\<close>

lemma digit_no_space: "k < 10 \<Longrightarrow> ''0123456789'' ! k \<noteq> CHR '' ''"
proof -
  assume "k < 10"
  then have "''0123456789'' ! k \<in> set ''0123456789''"
    by (intro nth_mem) simp
  then show ?thesis
    by auto
qed

lemma dec_no_space: "CHR '' '' \<notin> set (dec n)"
proof (induction n rule: dec.induct)
  case (1 n)
  show ?case
  proof (cases "n < 10")
    case True
    then show ?thesis
      using digit_no_space [of n] by (subst dec.simps) auto
  next
    case False
    then show ?thesis
      using 1 digit_no_space [of "n mod 10"] by (subst dec.simps) auto
  qed
qed

lemma length_dec: "0 < w \<Longrightarrow> n < 10 ^ w \<Longrightarrow> length (dec n) \<le> w"
proof (induction n arbitrary: w rule: dec.induct)
  case (1 n)
  show ?case
  proof (cases "n < 10")
    case True
    then show ?thesis
      using 1(2) by (subst dec.simps) simp
  next
    case False
    with 1(2,3) obtain v where w: "w = Suc v" "0 < v"
      by (cases w; cases "w - 1") auto
    with 1(3) have "n div 10 < 10 ^ v"
      by (simp add: less_mult_imp_div_less mult.commute)
    from 1(1) [OF False w(2) this] show ?thesis
      using False w by (subst dec.simps) simp
  qed
qed

lemma length_zfill: "0 < w \<Longrightarrow> n < 10 ^ w \<Longrightarrow> length (zfill w n) = w"
  using length_dec [of w n] by (simp add: zfill_def)

lemma zfill_no_space: "CHR '' '' \<notin> set (zfill w n)"
  by (auto simp: zfill_def dec_no_space)

lemma replace_append: "replace a t (xs @ ys) = replace a t xs @ replace a t ys"
  by (simp add: replace_def)

lemma replace_Cons: "replace a t (c # s) = (if c = a then t else [c]) @ replace a t s"
  by (simp add: replace_def)

lemma replace_absent: "a \<notin> set s \<Longrightarrow> replace a t s = s"
  by (induction s) (auto simp: replace_def)

lemma since_fraction:
  assumes "last_24h_datetime now = Inr d" and "valid_datetime d" and "microsecond d \<noteq> 0"
  shows "url_formatted_dt now =
     Inr (zfill 4 (year d) @ ''-'' @ zfill 2 (month d) @ ''-'' @ zfill 2 (day d) @ ''T'' @
          zfill 2 (hour d) @ '':'' @ zfill 2 (minute d) @ '':'' @ zfill 2 (second d) @ ''.'' @
          take 2 (zfill 6 (microsecond d)) @ ''Z'')"
proof -
  from assms(2) have len:
    "length (zfill 4 (year d)) = 4" "length (zfill 2 (month d)) = 2" "length (zfill 2 (day d)) = 2"
    "length (zfill 2 (hour d)) = 2" "length (zfill 2 (minute d)) = 2"
    "length (zfill 2 (second d)) = 2" "length (zfill 6 (microsecond d)) = 6"
    by (auto simp: valid_datetime_def days_in_month_def intro!: length_zfill split: if_splits)
  have rep: "replace (CHR '' '') ''T'' (str_datetime d) =
      zfill 4 (year d) @ ''-'' @ zfill 2 (month d) @ ''-'' @ zfill 2 (day d) @ ''T'' @
      zfill 2 (hour d) @ '':'' @ zfill 2 (minute d) @ '':'' @ zfill 2 (second d) @ ''.'' @
      zfill 6 (microsecond d)"
    using assms(3)
    by (simp add: str_datetime_def replace_append replace_absent zfill_no_space replace_Cons)
  show ?thesis
    using assms(1) by (simp add: url_formatted_dt_def rep drop_last4_def len)
qed

subsection \<open>A complete run\<close>

text \<open>
  The scenarios of the spec, run through the whole script: a registry with the one station
  \<open>A\<close> of notation \<open>S_1\<close>, and one reading. Both tables are fetched and cached, the
  identifier is \<open>S1\<close>, and the readings URL ends with the formatted window start.
\<close>

lemma script_scenario:
  "script (\<lambda>_. Inl ValueError) Inr ascii_lower ascii_title
     (\<lambda>_ u. if u = stations_api
        then Response 200 (Some (PDict [(''items'',
               PList [PDict [(''label'', PStr ''A''), (''notation'', PStr ''S_1''),
                             (''lat'', PNum 1), (''long'', PNum 2)]])]))
        else Response 200 (Some (PDict [(''items'',
               PList [PDict [(''dateTime'', PStr ''2024-01-01T00:00:00Z''),
                             (''value'', PNum 1.23)]])])))
     \<lparr>year = 2024, month = 3, day = 2, hour = 9, minute = 5, second = 7, microsecond = 123456\<rparr>
     0 \<lparr>cache = Map.empty, requests = []\<rparr>
   = (Inr \<lparr>v_url_formatted_dt = ''2024-03-01T09:05:07.12Z'',
           v_stations_df = \<lparr>columns = [''label'', ''notation'', ''lat'', ''long''],
                            rows = [[PStr ''A'', PStr ''S_1'', PNum 1, PNum 2]]\<rparr>,
           v_map_data = \<lparr>columns = [''lat'', ''lon''], rows = [[PNum 1, PNum 2]]\<rparr>,
           v_station_select = Some ''A'', v_options = [''A''], v_displayed = [''A''],
           v_station_id = ''S1'',
           v_filtered_by_station =
             ''http://environment.data.gov.uk/flood-monitoring/id/stations/S1/readings?since=2024-03-01T09:05:07.12Z'',
           v_filtered_df = \<lparr>columns = [''dateTime'', ''value''],
                            rows = [[PStr ''2024-01-01T00:00:00Z'', PNum 1.23]]\<rparr>,
           v_table = [(''Date and Time'', [PStr ''2024-01-01T00:00:00Z'']),
                      (''Water Level'', [PNum 1.23])]\<rparr>,
      \<lparr>cache = [''http://environment.data.gov.uk/flood-monitoring/id/stations'' \<mapsto>
                  \<lparr>columns = [''label'', ''notation'', ''lat'', ''long''],
                   rows = [[PStr ''A'', PStr ''S_1'', PNum 1, PNum 2]]\<rparr>,
                ''http://environment.data.gov.uk/flood-monitoring/id/stations/S1/readings?since=2024-03-01T09:05:07.12Z'' \<mapsto>
                  \<lparr>columns = [''dateTime'', ''value''],
                   rows = [[PStr ''2024-01-01T00:00:00Z'', PNum 1.23]]\<rparr>],
       requests = [''http://environment.data.gov.uk/flood-monitoring/id/stations'',
                   ''http://environment.data.gov.uk/flood-monitoring/id/stations/S1/readings?since=2024-03-01T09:05:07.12Z'']\<rparr>)"
proof -
  have since: "url_formatted_dt
      \<lparr>year = 2024, month = 3, day = 2, hour = 9, minute = 5, second = 7, microsecond = 123456\<rparr>
      = Inr ''2024-03-01T09:05:07.12Z''"
    by (simp add: url_formatted_dt_def last_24h_datetime_def
          str_datetime_def zfill_def dec.simps replace_def drop_last4_def)
  have fmt: "format_func ascii_lower ascii_title ''A'' = ''A''"
    by (simp add: format_func_def ascii_title_def ascii_lower_def to_lower_def to_upper_def
          is_upper_def is_lower_def upper_letters_def lower_letters_def)
  show ?thesis
    by (simp add: script_def pure_step_def io_step_def step_since_def since step_stations_def
          make_df_def make_df_body_def DataFrame_def frame_of_dicts_def column_of_def
          maybe_convert_objects_def float_column_def stations_df_def
          getitem_def cell_def mask_rows_def step_map_data_def map_data_def select_columns_def
          rename_def dropna_def step_station_select_def station_select_def label_options_def
          st_selectbox_def fmt step_station_id_def station_id_def replace_def
          filtered_by_station_def root_def stations_api_def step_filtered_df_def filtered_df_def
          setitem_def step_table_def table_def transpose_df_def init_vars_def empty_df_def)
qed

section \<open>The cached fetch: memoization and failure\<close>

text \<open>
  C1, as the spec states it, fails: a call that raises stores nothing. When the server
  answers with a JSON object that has no \<open>items\<close> field, two calls with the same URL send
  two requests, not one.
\<close>

theorem make_df_refetches_after_failure:
  "requests (snd (make_df (\<lambda>_. Inl ValueError) (\<lambda>_ _. Response 200 (Some (PDict []))) ''u''
     (snd (make_df (\<lambda>_. Inl ValueError) (\<lambda>_ _. Response 200 (Some (PDict []))) ''u''
        \<lparr>cache = Map.empty, requests = []\<rparr>)))) = [''u'', ''u'']"
  by (simp add: make_df_def make_df_body_def)

text \<open>
  C1, amended. For a URL \<open>u\<close> that the cache does not hold yet: when the first call
  returns a table, it sent exactly one request, and a second call with \<open>u\<close> returns the
  same table and sends none; when the first call raises, nothing is stored and the second
  call sends a request again; and a call with \<open>u\<close> followed by a call with a different URL
  that the cache does not hold sends one request for each, in that order.
\<close>

theorem make_df_memoizes_success:
  "cache s u = None \<Longrightarrow>
   (\<forall>df s1. make_df other net u s = (Inr df, s1) \<longrightarrow>
       requests s1 = requests s @ [u] \<and> make_df other net u s1 = (Inr df, s1)) \<and>
   (\<forall>e s1. make_df other net u s = (Inl e, s1) \<longrightarrow>
       cache s1 = cache s \<and> requests (snd (make_df other net u s1)) = requests s @ [u, u]) \<and>
   (\<forall>v. v \<noteq> u \<and> cache s v = None \<longrightarrow>
       requests (snd (make_df other net v (snd (make_df other net u s)))) = requests s @ [u, v])"
  by (auto simp: make_df_def Let_def split: sum.splits option.splits)

theorem make_df_memoizes_success_witness:
  "cache \<lparr>cache = Map.empty, requests = []\<rparr> ''u'' = None \<and>
   make_df (\<lambda>_. Inl ValueError) (\<lambda>_ _. Response 200 (Some (PDict [(''items'', PList [])]))) ''u''
       \<lparr>cache = Map.empty, requests = []\<rparr> =
     (Inr \<lparr>columns = [], rows = []\<rparr>,
      \<lparr>cache = [''u'' \<mapsto> \<lparr>columns = [], rows = []\<rparr>], requests = [''u'']\<rparr>) \<and>
   make_df (\<lambda>_. Inl ValueError) (\<lambda>_ _. Response 200 (Some (PDict [(''items'', PList [])]))) ''u''
       \<lparr>cache = [''u'' \<mapsto> \<lparr>columns = [], rows = []\<rparr>], requests = [''u'']\<rparr> =
     (Inr \<lparr>columns = [], rows = []\<rparr>,
      \<lparr>cache = [''u'' \<mapsto> \<lparr>columns = [], rows = []\<rparr>], requests = [''u'']\<rparr>) \<and>
   make_df (\<lambda>_. Inl ValueError) (\<lambda>_ _. Failed) ''u'' \<lparr>cache = Map.empty, requests = []\<rparr> =
     (Inl RequestException, \<lparr>cache = Map.empty, requests = [''u'']\<rparr>) \<and>
   requests (snd (make_df (\<lambda>_. Inl ValueError) (\<lambda>_ _. Failed) ''u''
        \<lparr>cache = Map.empty, requests = [''u'']\<rparr>)) = [''u'', ''u''] \<and>
   ''v'' \<noteq> ''u'' \<and> cache \<lparr>cache = Map.empty, requests = []\<rparr> ''v'' = None \<and>
   requests (snd (make_df (\<lambda>_. Inl ValueError) (\<lambda>_ _. Failed) ''v''
     (snd (make_df (\<lambda>_. Inl ValueError) (\<lambda>_ _. Failed) ''u''
        \<lparr>cache = Map.empty, requests = []\<rparr>)))) = [''u'', ''v'']"
proof -
  let ?s0 = "\<lparr>cache = Map.empty, requests = []\<rparr>"
  let ?other = "\<lambda>_::pyval. (Inl ValueError :: error + dataframe)"
  let ?up = "\<lambda>(_::nat) (_::string). Response 200 (Some (PDict [(''items'', PList [])]))"
  let ?down = "\<lambda>(_::nat) (_::string). Failed"
  let ?df = "\<lparr>columns = [], rows = []\<rparr>"
  let ?s1 = "\<lparr>cache = [''u'' \<mapsto> ?df], requests = [''u'']\<rparr>"
  let ?s1' = "\<lparr>cache = Map.empty, requests = [''u'']\<rparr> :: session"
  have miss: "cache ?s0 ''u'' = None"
    by simp
  have first_ok: "make_df ?other ?up ''u'' ?s0 = (Inr ?df, ?s1)"
    by (simp add: make_df_def make_df_body_def DataFrame_def frame_of_dicts_def)
  have first_bad: "make_df ?other ?down ''u'' ?s0 = (Inl RequestException, ?s1')"
    by (simp add: make_df_def make_df_body_def)
  have other_url: "''v'' \<noteq> ''u'' \<and> cache ?s0 ''v'' = None"
    by simp
  have again: "make_df ?other ?up ''u'' ?s1 = (Inr ?df, ?s1)"
    using make_df_memoizes_success [OF miss, of ?other ?up, THEN conjunct1, rule_format, OF first_ok]
    by (rule conjunct2)
  have "requests (snd (make_df ?other ?down ''u'' ?s1')) = requests ?s0 @ [''u'', ''u'']"
    using make_df_memoizes_success
            [OF miss, of ?other ?down, THEN conjunct2, THEN conjunct1, rule_format, OF first_bad]
    by (rule conjunct2)
  then have refetch: "requests (snd (make_df ?other ?down ''u'' ?s1')) = [''u'', ''u'']"
    by (simp only: session.simps append_Nil)
  have "requests (snd (make_df ?other ?down ''v'' (snd (make_df ?other ?down ''u'' ?s0))))
          = requests ?s0 @ [''u'', ''v'']"
    using make_df_memoizes_success
            [OF miss, of ?other ?down, THEN conjunct2, THEN conjunct2, rule_format, OF other_url] .
  then have two: "requests (snd (make_df ?other ?down ''v'' (snd (make_df ?other ?down ''u'' ?s0))))
          = [''u'', ''v'']"
    by (simp only: session.simps append_Nil)
  show ?thesis
    by (intro conjI miss first_ok again first_bad refetch two
          other_url [THEN conjunct1] other_url [THEN conjunct2])
qed



text \<open>
  C3, as the spec states it, fails: the status code is never read, so a response with
  status 500 whose body holds an \<open>items\<close> array gives a table.
\<close>

theorem make_df_ignores_status:
  "fst (make_df (\<lambda>_. Inl ValueError)
          (\<lambda>_ _. Response 500 (Some (PDict [(''items'', PList [])]))) ''u''
          \<lparr>cache = Map.empty, requests = []\<rparr>) = Inr \<lparr>columns = [], rows = []\<rparr>"
  by (simp add: make_df_def make_df_body_def DataFrame_def frame_of_dicts_def)

text \<open>
  C3, amended. For a URL that the cache does not hold: when the request fails, or the body
  is not JSON, or the parsed body has no \<open>items\<close> field (it is no object, or an object
  without that key), the call raises; it has sent exactly one request and stored nothing.
  A status outside 2xx does not make the call fail: the status code is never read, two
  responses with the same body give the same result, and a response of any status whose
  \<open>items\<close> field is an array of objects gives the table of those items.
\<close>

theorem make_df_failure_propagates:
  "cache s u = None \<Longrightarrow>
   (net (length (requests s)) u = Failed \<or>
    (\<exists>st. net (length (requests s)) u = Response st None) \<or>
    (\<exists>st j. net (length (requests s)) u = Response st (Some j) \<and> getv j ''items'' = None)
    \<longrightarrow> (\<exists>e. make_df other net u s = (Inl e, s\<lparr>requests := requests s @ [u]\<rparr>))) \<and>
   make_df_body other (Response st1 b) = make_df_body other (Response st2 b) \<and>
   (\<forall>st kvs items.
      net (length (requests s)) u = Response st (Some (PDict kvs)) \<and>
      map_of kvs ''items'' = Some (PList items) \<and> list_all is_dict items
      \<longrightarrow> make_df other net u s =
            (Inr (frame_of_dicts items),
             s\<lparr>requests := requests s @ [u], cache := (cache s)(u \<mapsto> frame_of_dicts items)\<rparr>))"
  by (auto simp: make_df_def make_df_body_def DataFrame_def Let_def
        split: sum.splits option.splits pyval.splits)

theorem make_df_failure_propagates_witness:
  "cache \<lparr>cache = Map.empty, requests = []\<rparr> ''u'' = None \<and>
   getv (PDict [(''error'', PStr ''not found'')]) ''items'' = None \<and>
   make_df (\<lambda>_. Inl ValueError) (\<lambda>_ _. Response 404 (Some (PDict [(''error'', PStr ''not found'')]))) ''u''
       \<lparr>cache = Map.empty, requests = []\<rparr> =
     (Inl (KeyError ''items''), \<lparr>cache = Map.empty, requests = [''u'']\<rparr>) \<and>
   map_of [(''items'', PList [PDict [(''value'', PNum 2)]])] ''items''
     = Some (PList [PDict [(''value'', PNum 2)]]) \<and>
   list_all is_dict [PDict [(''value'', PNum 2)]] \<and>
   make_df (\<lambda>_. Inl ValueError)
       (\<lambda>_ _. Response 500 (Some (PDict [(''items'', PList [PDict [(''value'', PNum 2)]])]))) ''u''
       \<lparr>cache = Map.empty, requests = []\<rparr> =
     (Inr \<lparr>columns = [''value''], rows = [[PNum 2]]\<rparr>,
      \<lparr>cache = [''u'' \<mapsto> \<lparr>columns = [''value''], rows = [[PNum 2]]\<rparr>], requests = [''u'']\<rparr>)"
proof -
  let ?s0 = "\<lparr>cache = Map.empty, requests = []\<rparr>"
  let ?other = "\<lambda>_::pyval. (Inl ValueError :: error + dataframe)"
  let ?j = "PDict [(''error'', PStr ''not found'')]"
  let ?bad = "\<lambda>(_::nat) (_::string). Response 404 (Some ?j)"
  let ?items = "[PDict [(''value'', PNum 2)]]"
  let ?kvs = "[(''items'', PList ?items)]"
  let ?ok = "\<lambda>(_::nat) (_::string). Response 500 (Some (PDict ?kvs))"
  let ?F = "\<lparr>columns = [''value''], rows = [[PNum 2]]\<rparr>"
  have miss: "cache ?s0 ''u'' = None"
    by simp
  have no_items: "getv ?j ''items'' = None"
    by simp
  have cond: "?bad (length (requests ?s0)) ''u'' = Failed \<or>
      (\<exists>st. ?bad (length (requests ?s0)) ''u'' = Response st None) \<or>
      (\<exists>st j. ?bad (length (requests ?s0)) ''u'' = Response st (Some j) \<and> getv j ''items'' = None)"
    by simp
  from make_df_failure_propagates [OF miss, of ?bad ?other, THEN conjunct1, rule_format, OF cond]
  obtain e where e: "make_df ?other ?bad ''u'' ?s0 = (Inl e, ?s0\<lparr>requests := requests ?s0 @ [''u'']\<rparr>)"
    by (rule exE)
  have "fst (make_df ?other ?bad ''u'' ?s0) = Inl (KeyError ''items'')"
    by (simp add: make_df_def make_df_body_def)
  with e have "e = KeyError ''items''"
    by simp
  with e have fails: "make_df ?other ?bad ''u'' ?s0 =
      (Inl (KeyError ''items''), \<lparr>cache = Map.empty, requests = [''u'']\<rparr>)"
    by simp
  have h3: "map_of ?kvs ''items'' = Some (PList ?items)"
    by simp
  have h4: "list_all is_dict ?items"
    by simp
  have arrives: "?ok (length (requests ?s0)) ''u'' = Response 500 (Some (PDict ?kvs)) \<and>
      map_of ?kvs ''items'' = Some (PList ?items) \<and> list_all is_dict ?items"
    by simp
  have frame: "frame_of_dicts ?items = ?F"
    by (simp add: frame_of_dicts_def column_of_def maybe_convert_objects_def float_column_def)
  have "make_df ?other ?ok ''u'' ?s0 =
      (Inr (frame_of_dicts ?items),
       ?s0\<lparr>requests := requests ?s0 @ [''u''], cache := (cache ?s0)(''u'' \<mapsto> frame_of_dicts ?items)\<rparr>)"
    using make_df_failure_propagates
            [OF miss, of ?ok ?other, THEN conjunct2, THEN conjunct2, rule_format, OF arrives] .
  then have table: "make_df ?other ?ok ''u'' ?s0 =
      (Inr ?F, \<lparr>cache = [''u'' \<mapsto> ?F], requests = [''u'']\<rparr>)"
    by (simp only: frame) simp
  show ?thesis
    by (rule conjI [OF miss conjI [OF no_items conjI [OF fails conjI [OF h3 conjI [OF h4 table]]]]])
qed

section \<open>The window start: the whole second\<close>

text \<open>
  C4. The text of a \<^verbatim>\<open>datetime\<close> has no fraction when its microsecond field is zero, and
  the slice \<^verbatim>\<open>[:-4]\<close> then cuts into the seconds and minutes: for a \<open>now\<close> of
  2024-01-02 12:00:00 exactly, \<open>since\<close> is \<open>2024-01-01T12:0Z\<close>, which is no ISO 8601
  rendering of 2024-01-01 12:00:00.
\<close>

theorem url_formatted_dt_whole_second:
  "url_formatted_dt
     \<lparr>year = 2024, month = 1, day = 2, hour = 12, minute = 0, second = 0, microsecond = 0\<rparr>
   = Inr ''2024-01-01T12:0Z''"
  by (simp add: url_formatted_dt_def last_24h_datetime_def str_datetime_def zfill_def
        dec.simps replace_def drop_last4_def)

section \<open>The registry: exclusion, map, selection, identifier\<close>

text \<open>
  C5. For a registry table with a \<open>label\<close> column in which exactly one row has the label
  \<open>" Huscote FAS"\<close>: line 50 returns a table with the same columns whose rows are the rows
  of the registry with precisely that one row removed, the others kept in order, so their
  number is one less.
\<close>

theorem stations_df_drops_huscote:
  "''label'' \<in> set (columns df) \<Longrightarrow>
   length (filter (\<lambda>r. cell df ''label'' r = PStr '' Huscote FAS'') (rows df)) = 1 \<Longrightarrow>
   \<exists>df' pre bad post.
      stations_df df = Inr df' \<and> columns df' = columns df \<and>
      rows df = pre @ bad # post \<and> cell df ''label'' bad = PStr '' Huscote FAS'' \<and>
      rows df' = pre @ post \<and> length (rows df') = length (rows df) - 1 \<and>
      (\<forall>r \<in> set (rows df'). cell df ''label'' r \<noteq> PStr '' Huscote FAS'')"
proof -
  assume lab: "''label'' \<in> set (columns df)"
    and one: "length (filter (\<lambda>r. cell df ''label'' r = PStr '' Huscote FAS'') (rows df)) = 1"
  from filter_single [OF one] obtain pre bad post where
    split: "rows df = pre @ bad # post" and bad: "cell df ''label'' bad = PStr '' Huscote FAS''"
    and rest: "filter (\<lambda>r. cell df ''label'' r \<noteq> PStr '' Huscote FAS'') (rows df) = pre @ post"
    and others: "\<forall>r \<in> set (pre @ post). cell df ''label'' r \<noteq> PStr '' Huscote FAS''"
    by blast
  let ?df' = "df\<lparr>rows := pre @ post\<rparr>"
  have "stations_df df = Inr ?df'"
    using stations_df_eq [OF lab] rest by simp
  moreover have "length (rows ?df') = length (rows df) - 1"
    by (simp add: split)
  ultimately show ?thesis
    using split bad others by (intro exI [of _ ?df'] exI [of _ pre] exI [of _ bad] exI [of _ post]) simp
qed

theorem stations_df_drops_huscote_witness:
  "''label'' \<in> set (columns
      \<lparr>columns = [''label'', ''notation''],
       rows = [[PStr ''b'', PStr ''S_1''], [PStr '' Huscote FAS'', PStr ''H''],
               [PStr ''A'', PStr ''1_2'']]\<rparr>) \<and>
   length (filter (\<lambda>r. cell \<lparr>columns = [''label'', ''notation''],
       rows = [[PStr ''b'', PStr ''S_1''], [PStr '' Huscote FAS'', PStr ''H''],
               [PStr ''A'', PStr ''1_2'']]\<rparr> ''label'' r = PStr '' Huscote FAS'')
     (rows \<lparr>columns = [''label'', ''notation''],
       rows = [[PStr ''b'', PStr ''S_1''], [PStr '' Huscote FAS'', PStr ''H''],
               [PStr ''A'', PStr ''1_2'']]\<rparr>)) = 1 \<and>
   (\<exists>df'. stations_df \<lparr>columns = [''label'', ''notation''],
       rows = [[PStr ''b'', PStr ''S_1''], [PStr '' Huscote FAS'', PStr ''H''],
               [PStr ''A'', PStr ''1_2'']]\<rparr> = Inr df' \<and> length (rows df') = 2)"
proof -
  let ?df = "\<lparr>columns = [''label'', ''notation''],
       rows = [[PStr ''b'', PStr ''S_1''], [PStr '' Huscote FAS'', PStr ''H''],
               [PStr ''A'', PStr ''1_2'']]\<rparr>"
  have h1: "''label'' \<in> set (columns ?df)"
    by simp
  have h2: "length (filter (\<lambda>r. cell ?df ''label'' r = PStr '' Huscote FAS'') (rows ?df)) = 1"
    by (simp add: cell_def)
  from stations_df_drops_huscote [OF h1 h2] obtain df' where
    "stations_df ?df = Inr df'" and "length (rows df') = length (rows ?df) - 1"
    by blast
  then have "\<exists>df'. stations_df ?df = Inr df' \<and> length (rows df') = 2"
    by simp
  with h1 h2 show ?thesis
    by (intro conjI)
qed

text \<open>
  C6. When the registry has the columns \<open>label\<close> and \<open>notation\<close>, the selection is a label
  \<open>sel\<close>, \<open>r\<close> is the first row whose label equals \<open>sel\<close> and its notation is the string \<open>n\<close>:
  the station identifier is \<open>n\<close> with every underscore removed, and the readings URL is the
  root followed by \<open>id/stations/\<close>, the identifier, \<open>/readings?since=\<close> and the formatted
  window start. The witness is the scenario of the spec: label \<open>A\<close>, notation \<open>S_1\<close>,
  identifier \<open>S1\<close>.
\<close>

theorem station_id_first_match:
  "v_stations_df g = df \<Longrightarrow>
   ''label'' \<in> set (columns df) \<Longrightarrow>
   ''notation'' \<in> set (columns df) \<Longrightarrow>
   v_station_select g = Some sel \<Longrightarrow>
   List.find (\<lambda>r. cell df ''label'' r = PStr sel) (rows df) = Some r \<Longrightarrow>
   cell df ''notation'' r = PStr n \<Longrightarrow>
   station_id df (Some sel) = Inr (filter (\<lambda>c. c \<noteq> CHR ''_'') n) \<and>
   step_station_id g =
     Inr (g\<lparr>v_station_id := filter (\<lambda>c. c \<noteq> CHR ''_'') n,
            v_filtered_by_station :=
              root @ ''id/stations/'' @ filter (\<lambda>c. c \<noteq> CHR ''_'') n @ ''/readings?since=''
                @ v_url_formatted_dt g\<rparr>)"
proof -
  assume df: "v_stations_df g = df"
    and lab: "''label'' \<in> set (columns df)" and nota: "''notation'' \<in> set (columns df)"
    and sel: "v_station_select g = Some sel"
    and first: "List.find (\<lambda>r. cell df ''label'' r = PStr sel) (rows df) = Some r"
    and n: "cell df ''notation'' r = PStr n"
  from find_filter [OF first] obtain rest where
    matched: "filter (\<lambda>r. cell df ''label'' r = PStr sel) (rows df) = r # rest"
    by blast
  have "rows (mask_rows df (map (\<lambda>v. v = PStr sel) (map (cell df ''label'') (rows df)))) = r # rest"
    using rows_mask_column [of df "\<lambda>v. v = PStr sel" "''label''"] matched by simp
  then have sid: "station_id df (Some sel) = Inr (filter (\<lambda>c. c \<noteq> CHR ''_'') n)"
    using lab nota n
    by (simp add: station_id_def getitem_def columns_mask_rows cell_mask_rows replace_remove)
  then show ?thesis
    using sel df by (simp add: step_station_id_def filtered_by_station_def)
qed

theorem station_id_first_match_witness:
  "List.find (\<lambda>r. cell \<lparr>columns = [''label'', ''notation'', ''lat'', ''long''],
                           rows = [[PStr ''A'', PStr ''S_1'', PNum 1, PNum 2]]\<rparr> ''label'' r = PStr ''A'')
     (rows \<lparr>columns = [''label'', ''notation'', ''lat'', ''long''],
            rows = [[PStr ''A'', PStr ''S_1'', PNum 1, PNum 2]]\<rparr>)
     = Some [PStr ''A'', PStr ''S_1'', PNum 1, PNum 2] \<and>
   station_id \<lparr>columns = [''label'', ''notation'', ''lat'', ''long''],
               rows = [[PStr ''A'', PStr ''S_1'', PNum 1, PNum 2]]\<rparr> (Some ''A'') = Inr ''S1'' \<and>
   map_sum id v_filtered_by_station (step_station_id (init_vars
      \<lparr>v_url_formatted_dt := ''2024-02-29T09:05:07.12Z'',
       v_stations_df := \<lparr>columns = [''label'', ''notation'', ''lat'', ''long''],
                         rows = [[PStr ''A'', PStr ''S_1'', PNum 1, PNum 2]]\<rparr>,
       v_station_select := Some ''A''\<rparr>))
     = Inr ''http://environment.data.gov.uk/flood-monitoring/id/stations/S1/readings?since=2024-02-29T09:05:07.12Z''"
proof -
  let ?df = "\<lparr>columns = [''label'', ''notation'', ''lat'', ''long''],
              rows = [[PStr ''A'', PStr ''S_1'', PNum 1, PNum 2]]\<rparr>"
  let ?g = "init_vars\<lparr>v_url_formatted_dt := ''2024-02-29T09:05:07.12Z'',
                      v_stations_df := ?df, v_station_select := Some ''A''\<rparr>"
  have h0: "v_stations_df ?g = ?df"
    by simp
  have h1: "''label'' \<in> set (columns ?df)"
    by simp
  have h2: "''notation'' \<in> set (columns ?df)"
    by simp
  have h3: "v_station_select ?g = Some ''A''"
    by simp
  have h4: "List.find (\<lambda>r. cell ?df ''label'' r = PStr ''A'') (rows ?df)
              = Some [PStr ''A'', PStr ''S_1'', PNum 1, PNum 2]"
    by (simp add: cell_def)
  have h5: "cell ?df ''notation'' [PStr ''A'', PStr ''S_1'', PNum 1, PNum 2] = PStr ''S_1''"
    by (simp add: cell_def)
  note T = station_id_first_match [OF h0 h1 h2 h3 h4 h5]
  have a: "station_id ?df (Some ''A'') = Inr ''S1''"
    using T [THEN conjunct1] by simp
  have b: "map_sum id v_filtered_by_station (step_station_id ?g)
     = Inr ''http://environment.data.gov.uk/flood-monitoring/id/stations/S1/readings?since=2024-02-29T09:05:07.12Z''"
    by (simp add: T [THEN conjunct2] root_def)
  show ?thesis
    by (rule conjI [OF h4 conjI [OF a b]])
qed



text \<open>
  C8, as the spec states it, fails: the options are sorted as Python sorts strings, by code
  point, and every upper-case letter comes before every lower-case one. For the labels
  \<open>apple\<close> and \<open>Zebra\<close> the options are \<open>Zebra\<close>, \<open>apple\<close>, which is not alphabetical order.
\<close>

theorem label_options_not_alphabetical:
  "label_options \<lparr>columns = [''label''], rows = [[PStr ''apple''], [PStr ''Zebra'']]\<rparr>
     = Inr [''Zebra'', ''apple''] \<and>
   \<not> alphabetical [''Zebra'', ''apple'']"
  by (simp add: label_options_def getitem_def cell_def alphabetical_def ascii_lower_def
        to_lower_def upper_letters_def lower_letters_def)

text \<open>
  C8, amended. When the registry has a \<open>label\<close> column and every label is a string, lines 65
  to 69 succeed with a list of options that holds exactly the labels of the registry, each
  once, in strictly ascending order of Python's string comparison (by code point); the
  strings displayed are the options lower-cased and then title-cased; and the value assigned
  to \<open>station_select\<close>, which the later lookups read, is the option itself at the chosen
  position, not its displayed form. In the witness the label \<open>HUSCOTE fas\<close> is displayed as
  \<open>Huscote Fas\<close> and returned unchanged; the lookup finds its station, and would find none
  under the displayed form.
\<close>

theorem station_select_options:
  "v_stations_df g = df \<Longrightarrow>
   ''label'' \<in> set (columns df) \<Longrightarrow>
   list_all (\<lambda>r. is_str (cell df ''label'' r)) (rows df) \<Longrightarrow>
   \<exists>opts.
     set opts = (\<lambda>r. the_str (cell df ''label'' r)) ` set (rows df) \<and>
     sorted_wrt (<) opts \<and>
     step_station_select lower title choice g =
       Inr (g\<lparr>v_station_select :=
                (if opts = [] then None
                 else Some (opts ! (if choice < length opts then choice else 0))),
              v_options := opts,
              v_displayed := map (\<lambda>a. title (lower a)) opts\<rparr>)"
proof -
  let ?opts = "unique (sort (map (\<lambda>r. the_str (cell df ''label'' r)) (rows df)))"
  assume df: "v_stations_df g = df" and lab: "''label'' \<in> set (columns df)"
    and strs: "list_all (\<lambda>r. is_str (cell df ''label'' r)) (rows df)"
  have "set ?opts = (\<lambda>r. the_str (cell df ''label'' r)) ` set (rows df)"
    by (simp add: set_unique)
  moreover have "sorted_wrt (<) ?opts"
    by (simp add: strict_sorted_iff sorted_unique distinct_unique)
  moreover have "step_station_select lower title choice g =
       Inr (g\<lparr>v_station_select :=
                (if ?opts = [] then None
                 else Some (?opts ! (if choice < length ?opts then choice else 0))),
              v_options := ?opts,
              v_displayed := map (\<lambda>a. title (lower a)) ?opts\<rparr>)"
    using label_options_eq [OF lab strs] df
    by (simp add: step_station_select_def station_select_def st_selectbox_def format_func_def
          comp_def)
  ultimately show ?thesis
    by blast
qed

theorem station_select_options_witness:
  "list_all (\<lambda>r. is_str (cell \<lparr>columns = [''label'', ''notation''],
        rows = [[PStr ''b'', PStr ''N_1''], [PStr ''HUSCOTE fas'', PStr ''H_F''],
                [PStr ''A'', PStr ''N_2''], [PStr ''b'', PStr ''N_3'']]\<rparr> ''label'' r))
      (rows \<lparr>columns = [''label'', ''notation''],
        rows = [[PStr ''b'', PStr ''N_1''], [PStr ''HUSCOTE fas'', PStr ''H_F''],
                [PStr ''A'', PStr ''N_2''], [PStr ''b'', PStr ''N_3'']]\<rparr>) \<and>
   (\<exists>opts.
     set opts = (\<lambda>r. the_str (cell \<lparr>columns = [''label'', ''notation''],
        rows = [[PStr ''b'', PStr ''N_1''], [PStr ''HUSCOTE fas'', PStr ''H_F''],
                [PStr ''A'', PStr ''N_2''], [PStr ''b'', PStr ''N_3'']]\<rparr> ''label'' r))
                 ` set (rows \<lparr>columns = [''label'', ''notation''],
        rows = [[PStr ''b'', PStr ''N_1''], [PStr ''HUSCOTE fas'', PStr ''H_F''],
                [PStr ''A'', PStr ''N_2''], [PStr ''b'', PStr ''N_3'']]\<rparr>) \<and>
     sorted_wrt (<) opts \<and>
     step_station_select ascii_lower ascii_title 1 (init_vars
        \<lparr>v_stations_df := \<lparr>columns = [''label'', ''notation''],
        rows = [[PStr ''b'', PStr ''N_1''], [PStr ''HUSCOTE fas'', PStr ''H_F''],
                [PStr ''A'', PStr ''N_2''], [PStr ''b'', PStr ''N_3'']]\<rparr>\<rparr>)
       = Inr (init_vars
        \<lparr>v_stations_df := \<lparr>columns = [''label'', ''notation''],
        rows = [[PStr ''b'', PStr ''N_1''], [PStr ''HUSCOTE fas'', PStr ''H_F''],
                [PStr ''A'', PStr ''N_2''], [PStr ''b'', PStr ''N_3'']]\<rparr>,
         v_station_select :=
           (if opts = [] then None else Some (opts ! (if 1 < length opts then 1 else 0))),
         v_options := opts,
         v_displayed := map (\<lambda>a. ascii_title (ascii_lower a)) opts\<rparr>)) \<and>
   step_station_select ascii_lower ascii_title 1 (init_vars
      \<lparr>v_stations_df := \<lparr>columns = [''label'', ''notation''],
        rows = [[PStr ''b'', PStr ''N_1''], [PStr ''HUSCOTE fas'', PStr ''H_F''],
                [PStr ''A'', PStr ''N_2''], [PStr ''b'', PStr ''N_3'']]\<rparr>\<rparr>)
     = Inr (init_vars
      \<lparr>v_stations_df := \<lparr>columns = [''label'', ''notation''],
        rows = [[PStr ''b'', PStr ''N_1''], [PStr ''HUSCOTE fas'', PStr ''H_F''],
                [PStr ''A'', PStr ''N_2''], [PStr ''b'', PStr ''N_3'']]\<rparr>,
       v_station_select := Some ''HUSCOTE fas'',
       v_options := [''A'', ''HUSCOTE fas'', ''b''],
       v_displayed := [''A'', ''Huscote Fas'', ''B'']\<rparr>) \<and>
   station_id \<lparr>columns = [''label'', ''notation''],
        rows = [[PStr ''b'', PStr ''N_1''], [PStr ''HUSCOTE fas'', PStr ''H_F''],
                [PStr ''A'', PStr ''N_2''], [PStr ''b'', PStr ''N_3'']]\<rparr>
     (Some ''HUSCOTE fas'') = Inr ''HF'' \<and>
   station_id \<lparr>columns = [''label'', ''notation''],
        rows = [[PStr ''b'', PStr ''N_1''], [PStr ''HUSCOTE fas'', PStr ''H_F''],
                [PStr ''A'', PStr ''N_2''], [PStr ''b'', PStr ''N_3'']]\<rparr>
     (Some ''Huscote Fas'') = Inl IndexError"
proof -
  let ?df = "\<lparr>columns = [''label'', ''notation''],
        rows = [[PStr ''b'', PStr ''N_1''], [PStr ''HUSCOTE fas'', PStr ''H_F''],
                [PStr ''A'', PStr ''N_2''], [PStr ''b'', PStr ''N_3'']]\<rparr>"
  let ?g = "init_vars\<lparr>v_stations_df := ?df\<rparr>"
  have h0: "v_stations_df ?g = ?df"
    by simp
  have h1: "''label'' \<in> set (columns ?df)"
    by simp
  have h2: "list_all (\<lambda>r. is_str (cell ?df ''label'' r)) (rows ?df)"
    by (simp add: cell_def)
  note general = station_select_options [OF h0 h1 h2, of ascii_lower ascii_title 1]
  have sorted_labels:
    "sort [''b'', ''HUSCOTE fas'', ''A'', ''b''] = [''A'', ''HUSCOTE fas'', ''b'', ''b'']"
    by simp
  have shown: "format_func ascii_lower ascii_title ''A'' = ''A''"
      "format_func ascii_lower ascii_title ''HUSCOTE fas'' = ''Huscote Fas''"
      "format_func ascii_lower ascii_title ''b'' = ''B''"
    by (simp_all add: format_func_def ascii_title_def ascii_lower_def to_lower_def to_upper_def
          is_upper_def is_lower_def upper_letters_def lower_letters_def)
  have concrete: "step_station_select ascii_lower ascii_title 1 ?g =
      Inr (?g\<lparr>v_station_select := Some ''HUSCOTE fas'',
              v_options := [''A'', ''HUSCOTE fas'', ''b''],
              v_displayed := [''A'', ''Huscote Fas'', ''B'']\<rparr>)"
    by (simp add: step_station_select_def station_select_def label_options_def getitem_def
          cell_def st_selectbox_def sorted_labels shown)
  have raw: "station_id ?df (Some ''HUSCOTE fas'') = Inr ''HF''"
    by (simp add: station_id_def getitem_def mask_rows_def cell_def replace_def)
  have formatted: "station_id ?df (Some ''Huscote Fas'') = Inl IndexError"
    by (simp add: station_id_def getitem_def mask_rows_def cell_def)
  show ?thesis
    by (rule conjI [OF h2 conjI [OF general conjI [OF concrete conjI [OF raw formatted]]]])
qed

text \<open>
  C9. Whenever the selector returns a label, that label is one of its options, some row of
  the same registry table has exactly that label, and the lookup of lines 72 to 76 with it
  does not raise the \<^verbatim>\<open>IndexError\<close> of an empty match.
\<close>

theorem selected_label_has_station:
  "station_select lower title df choice = Inr box \<Longrightarrow> selected box = Some l \<Longrightarrow>
   l \<in> set (options box) \<and>
   (\<exists>r \<in> set (rows df). cell df ''label'' r = PStr l) \<and>
   station_id df (Some l) \<noteq> Inl IndexError"
proof -
  assume sel: "station_select lower title df choice = Inr box" and l: "selected box = Some l"
  let ?opts = "unique (sort (map the_str (map (cell df ''label'') (rows df))))"
  from sel have lab: "''label'' \<in> set (columns df)"
    and strs: "list_all is_str (map (cell df ''label'') (rows df))"
    and box: "box = st_selectbox ?opts (format_func lower title) choice"
    by (auto simp: station_select_def label_options_def getitem_def split: sum.splits if_splits)
  from box l have mem: "l \<in> set ?opts"
    by (auto simp: st_selectbox_def split: if_splits)
  then obtain r where r: "r \<in> set (rows df)" and "the_str (cell df ''label'' r) = l"
    by (auto simp: set_unique)
  moreover from strs r have "is_str (cell df ''label'' r)"
    by (simp add: list_all_iff)
  ultimately have cell: "cell df ''label'' r = PStr l"
    by (cases "cell df ''label'' r") auto
  with r have nonempty: "filter (\<lambda>r. cell df ''label'' r = PStr l) (rows df) \<noteq> []"
    by (auto simp: filter_empty_conv)
  have "rows (mask_rows df (map (\<lambda>v. v = PStr l) (map (cell df ''label'') (rows df)))) \<noteq> []"
    using rows_mask_column [of df "\<lambda>v. v = PStr l" "''label''"] nonempty by simp
  then have "station_id df (Some l) \<noteq> Inl IndexError"
    using lab
    by (auto simp: station_id_def getitem_def columns_mask_rows split: list.splits pyval.splits)
  with mem r cell box show ?thesis
    by (auto simp: st_selectbox_def)
qed

theorem selected_label_has_station_witness:
  "station_select ascii_lower ascii_title
       \<lparr>columns = [''label'', ''notation''],
                   rows = [[PStr ''b'', PStr ''S_1''], [PStr ''A'', PStr ''1_2'']]\<rparr> 1
     = Inr \<lparr>options = [''A'', ''b''], displayed = [''A'', ''B''], selected = Some ''b''\<rparr> \<and>
   ''b'' \<in> set (options \<lparr>options = [''A'', ''b''], displayed = [''A'', ''B''], selected = Some ''b''\<rparr>) \<and>
   (\<exists>r \<in> set (rows \<lparr>columns = [''label'', ''notation''],
                   rows = [[PStr ''b'', PStr ''S_1''], [PStr ''A'', PStr ''1_2'']]\<rparr>).
      cell \<lparr>columns = [''label'', ''notation''],
                   rows = [[PStr ''b'', PStr ''S_1''], [PStr ''A'', PStr ''1_2'']]\<rparr> ''label'' r = PStr ''b'') \<and>
   station_id \<lparr>columns = [''label'', ''notation''],
                   rows = [[PStr ''b'', PStr ''S_1''], [PStr ''A'', PStr ''1_2'']]\<rparr> (Some ''b'')
     \<noteq> Inl IndexError"
proof -
  let ?df = "\<lparr>columns = [''label'', ''notation''],
              rows = [[PStr ''b'', PStr ''S_1''], [PStr ''A'', PStr ''1_2'']]\<rparr>"
  let ?box = "\<lparr>options = [''A'', ''b''], displayed = [''A'', ''B''], selected = Some ''b''\<rparr>"
  have h1: "station_select ascii_lower ascii_title ?df 1 = Inr ?box"
    by (simp add: station_select_def label_options_def getitem_def cell_def st_selectbox_def
          format_func_def ascii_title_def ascii_lower_def to_lower_def to_upper_def is_upper_def
          is_lower_def upper_letters_def lower_letters_def)
  have h2: "selected ?box = Some ''b''"
    by simp
  show ?thesis
    by (rule conjI [OF h1 selected_label_has_station [OF h1 h2]])
qed

section \<open>Readings with no items\<close>

text \<open>
  C10. When the response for the readings URL (not held by the cache) has an empty
  \<open>items\<close> array, whatever its status, the table built from it has no column and no row,
  the read of the column \<open>dateTime\<close> raises \<^verbatim>\<open>KeyError\<close>, and the run ends there with that
  error: no table and no chart data are computed.
\<close>

theorem empty_items_aborts_readings:
  "cache s (v_filtered_by_station g) = None \<Longrightarrow>
   net (length (requests s)) (v_filtered_by_station g) = Response st (Some (PDict kvs)) \<Longrightarrow>
   map_of kvs ''items'' = Some (PList []) \<Longrightarrow>
   make_df other net (v_filtered_by_station g) s =
     (Inr \<lparr>columns = [], rows = []\<rparr>,
      s\<lparr>requests := requests s @ [v_filtered_by_station g],
        cache := (cache s)(v_filtered_by_station g \<mapsto> \<lparr>columns = [], rows = []\<rparr>)\<rparr>) \<and>
   pure_step step_table (io_step (step_filtered_df other to_datetime net) (Inr g, s)) =
     (Inl (KeyError ''dateTime''),
      s\<lparr>requests := requests s @ [v_filtered_by_station g],
        cache := (cache s)(v_filtered_by_station g \<mapsto> \<lparr>columns = [], rows = []\<rparr>)\<rparr>)"
  by (simp add: make_df_def make_df_body_def DataFrame_def frame_of_dicts_def pure_step_def
        io_step_def step_filtered_df_def filtered_df_def getitem_def)

theorem empty_items_aborts_readings_witness:
  "cache \<lparr>cache = Map.empty, requests = []\<rparr> (v_filtered_by_station (init_vars\<lparr>v_filtered_by_station := ''r''\<rparr>)) = None \<and>
   map_of [(''meta'', PNone), (''items'', PList [])] ''items'' = Some (PList []) \<and>
   pure_step step_table
     (io_step (step_filtered_df (\<lambda>_. Inl ValueError) Inr
                 (\<lambda>_ _. Response 200 (Some (PDict [(''meta'', PNone), (''items'', PList [])]))))
        (Inr (init_vars\<lparr>v_filtered_by_station := ''r''\<rparr>), \<lparr>cache = Map.empty, requests = []\<rparr>)) =
     (Inl (KeyError ''dateTime''),
      \<lparr>cache = [''r'' \<mapsto> \<lparr>columns = [], rows = []\<rparr>], requests = [''r'']\<rparr>)"
  using empty_items_aborts_readings
          [of "\<lparr>cache = Map.empty, requests = []\<rparr>" "init_vars\<lparr>v_filtered_by_station := ''r''\<rparr>"
              "\<lambda>_ _. Response 200 (Some (PDict [(''meta'', PNone), (''items'', PList [])]))"
              200 "[(''meta'', PNone), (''items'', PList [])]" "\<lambda>_. Inl ValueError" Inr]
  by (simp add: init_vars_def)

end
